theory Spec2Isabelle
  imports Complex_Main
begin

section \<open>Learning rate schedulers of \<^verbatim>\<open>python/mxnet/lr_scheduler.py\<close>\<close>

text \<open>
  The module holds a base class \<^verbatim>\<open>LRScheduler\<close> and three schedulers derived from it.
  Each scheduler is an object with a constructor (\<^verbatim>\<open>__init__\<close>) that validates its
  arguments and a method \<^verbatim>\<open>__call__(num_update)\<close> that returns the learning rate and,
  for two of the three, updates the fields of the object.

  Conventions of the embedding:
  \<^item> an object is a record of its fields; the fields of the base class are inherited by
    record extension. \<^verbatim>\<open>step\<close>, \<open>factor\<close> and \<open>count\<close> are fields of two classes, so
    they are written with the name of their class (\<open>FactorScheduler.step\<close>);
  \<^item> a method takes the object and returns the updated object beside its result;
  \<^item> \<^verbatim>\<open>raise\<close> and a failed \<^verbatim>\<open>assert\<close> are the left summand of the result type;
  \<^item> \<^verbatim>\<open>logging.info\<close> is a list of events returned by the call, in emission order;
  \<^item> Python's \<^verbatim>\<open>int\<close> is \<open>int\<close>; Python's \<^verbatim>\<open>float\<close> is idealised as \<open>real\<close>:
    arithmetic on floats is exact, and there is no rounding, infinity or NaN. The
    conversion of an integer to a float (\<^verbatim>\<open>float(n)\<close>, and the integer operand of a
    float division) raises \<^verbatim>\<open>OverflowError\<close> outside the range of a binary64 float,
    as in Python, and is the embedding \<open>real_of_int\<close> inside it.
\<close>

subsection \<open>Errors and log events\<close>

datatype error =
    ValueError string
  | AssertionError
  | ZeroDivisionError
  | OverflowError
  | NotImplementedError string

text \<open>
  The two messages of \<^verbatim>\<open>logging.info\<close>, each with its arguments
  (\<^verbatim>\<open>num_update\<close> and the new \<^verbatim>\<open>base_lr\<close>):
  \<^verbatim>\<open>"Update[%d]: now learning rate arrived at %0.5e, will not change in the future"\<close> and
  \<^verbatim>\<open>"Update[%d]: Change learning rate to %0.5e"\<close>.
\<close>

datatype log_event =
    Arrived_at int real
  | Change_to int real

subsection \<open>The base class\<close>

record LRScheduler =
  base_lr :: real

definition LRScheduler_init :: "LRScheduler" where
  "LRScheduler_init = \<lparr>base_lr = 0.01\<rparr>"

definition LRScheduler_call :: "LRScheduler \<Rightarrow> int \<Rightarrow> error + real" where
  "LRScheduler_call self num_update = Inl (NotImplementedError ''must override this'')"

subsection \<open>FactorScheduler\<close>

record FactorScheduler = LRScheduler +
  step :: int
  factor :: real
  stop_factor_lr :: real
  count :: int

text \<open>The default of \<^verbatim>\<open>stop_factor_lr\<close> is \<^verbatim>\<open>1e-8\<close>, the default of \<^verbatim>\<open>factor\<close> is 1.\<close>

definition default_stop_factor_lr :: real where
  "default_stop_factor_lr = 0.00000001"

definition FactorScheduler_init :: "int \<Rightarrow> real \<Rightarrow> real \<Rightarrow> error + FactorScheduler" where
  "FactorScheduler_init step_arg factor_arg stop_factor_lr_arg =
     (if step_arg < 1 then
        Inl (ValueError ''Schedule step must be greater or equal than 1 round'')
      else if factor_arg > 1.0 then
        Inl (ValueError ''Factor must be no more than 1 to make lr reduce'')
      else
        Inr \<lparr>base_lr = base_lr LRScheduler_init,
             FactorScheduler.step = step_arg,
             FactorScheduler.factor = factor_arg,
             stop_factor_lr = stop_factor_lr_arg,
             FactorScheduler.count = 0\<rparr>)"

text \<open>
  \<^verbatim>\<open>__call__\<close>: the result is the returned rate, the object after the call and the
  events logged by the call.
\<close>

definition FactorScheduler_call ::
  "FactorScheduler \<Rightarrow> int \<Rightarrow> real \<times> FactorScheduler \<times> log_event list" where
  "FactorScheduler_call self num_update =
     (if num_update > FactorScheduler.count self + FactorScheduler.step self then
        let self1 = self\<lparr>FactorScheduler.count :=
                      FactorScheduler.count self + FactorScheduler.step self\<rparr>;
            self2 = self1\<lparr>base_lr := base_lr self1 * FactorScheduler.factor self1\<rparr>
        in
          if base_lr self2 < stop_factor_lr self2 then
            let self3 = self2\<lparr>base_lr := stop_factor_lr self2\<rparr>
            in (base_lr self3, self3, [Arrived_at num_update (base_lr self3)])
          else (base_lr self2, self2, [Change_to num_update (base_lr self2)])
      else (base_lr self, self, []))"

text \<open>A sequence of calls on one object: the rates returned, and the object afterwards.\<close>

fun FactorScheduler_rates :: "FactorScheduler \<Rightarrow> int list \<Rightarrow> real list" where
  "FactorScheduler_rates self [] = []"
| "FactorScheduler_rates self (n # ns) =
     (case FactorScheduler_call self n of
        (rate, self', logs) \<Rightarrow> rate # FactorScheduler_rates self' ns)"

fun FactorScheduler_after :: "FactorScheduler \<Rightarrow> int list \<Rightarrow> FactorScheduler" where
  "FactorScheduler_after self [] = self"
| "FactorScheduler_after self (n # ns) =
     (case FactorScheduler_call self n of
        (rate, self', logs) \<Rightarrow> FactorScheduler_after self' ns)"

subsection \<open>MultiFactorScheduler\<close>

record MultiFactorScheduler = LRScheduler +
  step :: "int list"
  cur_step_ind :: nat
  factor :: real
  count :: int

text \<open>
  The validation loop of the constructor,
  \<^verbatim>\<open>for i, _step in enumerate(step)\<close>, from index \<open>i\<close> on: the first error raised, if any.
  Index \<open>i - 1\<close> is read only when \<open>i \<noteq> 0\<close>.
\<close>

function check_steps :: "int list \<Rightarrow> nat \<Rightarrow> error option" where
  "check_steps step_arg i =
     (if i < length step_arg then
        if i \<noteq> 0 \<and> step_arg ! i \<le> step_arg ! (i - 1) then
          Some (ValueError ''Schedule step must be an increasing integer list'')
        else if step_arg ! i < 1 then
          Some (ValueError ''Schedule step must be greater or equal than 1 round'')
        else check_steps step_arg (Suc i)
      else None)"
  by pat_completeness auto
termination
  by (relation "measure (\<lambda>(step_arg, i). length step_arg - i)") auto

declare check_steps.simps [simp del]

text \<open>
  The argument has the type of a list, so \<^verbatim>\<open>isinstance(step, list)\<close> holds; the
  other conjunct of the assertion, \<^verbatim>\<open>len(step) >= 1\<close>, is checked.
\<close>

definition MultiFactorScheduler_init :: "int list \<Rightarrow> real \<Rightarrow> error + MultiFactorScheduler" where
  "MultiFactorScheduler_init step_arg factor_arg =
     (if \<not> length step_arg \<ge> 1 then Inl AssertionError
      else case check_steps step_arg 0 of
        Some e \<Rightarrow> Inl e
      | None \<Rightarrow>
          if factor_arg > 1.0 then
            Inl (ValueError ''Factor must be no more than 1 to make lr reduce'')
          else
            Inr \<lparr>base_lr = base_lr LRScheduler_init,
                 MultiFactorScheduler.step = step_arg,
                 cur_step_ind = 0,
                 MultiFactorScheduler.factor = factor_arg,
                 MultiFactorScheduler.count = 0\<rparr>)"

text \<open>
  \<^verbatim>\<open>cur_step_ind\<close> starts at 0 and is only ever incremented, so it is a natural
  number; the bound \<^verbatim>\<open>len(self.step)-1\<close> is computed over the integers, where it is
  \<open>-1\<close> for the empty list.
\<close>

definition MultiFactorScheduler_call ::
  "MultiFactorScheduler \<Rightarrow> int \<Rightarrow> real \<times> MultiFactorScheduler \<times> log_event list" where
  "MultiFactorScheduler_call self num_update =
     (if int (cur_step_ind self) \<le> int (length (MultiFactorScheduler.step self)) - 1 then
        if num_update > MultiFactorScheduler.step self ! cur_step_ind self then
          let self1 = self\<lparr>MultiFactorScheduler.count :=
                        MultiFactorScheduler.step self ! cur_step_ind self\<rparr>;
              self2 = self1\<lparr>cur_step_ind := cur_step_ind self1 + 1\<rparr>;
              self3 = self2\<lparr>base_lr := base_lr self2 * MultiFactorScheduler.factor self2\<rparr>
          in (base_lr self3, self3, [Change_to num_update (base_lr self3)])
        else (base_lr self, self, [])
      else (base_lr self, self, []))"

fun MultiFactorScheduler_rates :: "MultiFactorScheduler \<Rightarrow> int list \<Rightarrow> real list" where
  "MultiFactorScheduler_rates self [] = []"
| "MultiFactorScheduler_rates self (n # ns) =
     (case MultiFactorScheduler_call self n of
        (rate, self', logs) \<Rightarrow> rate # MultiFactorScheduler_rates self' ns)"

fun MultiFactorScheduler_after :: "MultiFactorScheduler \<Rightarrow> int list \<Rightarrow> MultiFactorScheduler" where
  "MultiFactorScheduler_after self [] = self"
| "MultiFactorScheduler_after self (n # ns) =
     (case MultiFactorScheduler_call self n of
        (rate, self', logs) \<Rightarrow> MultiFactorScheduler_after self' ns)"

text \<open>
  The three states of the scheduler with milestones \<open>[5, 10]\<close> and factor 0.1: as
  constructed, after the first milestone and after the second.
\<close>

abbreviation milestones_5_10_initial :: MultiFactorScheduler where
  "milestones_5_10_initial \<equiv>
     \<lparr>base_lr = 0.01, MultiFactorScheduler.step = [5, 10], cur_step_ind = 0,
      MultiFactorScheduler.factor = 0.1, MultiFactorScheduler.count = 0\<rparr>"

abbreviation milestones_5_10_first :: MultiFactorScheduler where
  "milestones_5_10_first \<equiv>
     \<lparr>base_lr = 0.001, MultiFactorScheduler.step = [5, 10], cur_step_ind = 1,
      MultiFactorScheduler.factor = 0.1, MultiFactorScheduler.count = 5\<rparr>"

abbreviation milestones_5_10_second :: MultiFactorScheduler where
  "milestones_5_10_second \<equiv>
     \<lparr>base_lr = 0.0001, MultiFactorScheduler.step = [5, 10], cur_step_ind = 2,
      MultiFactorScheduler.factor = 0.1, MultiFactorScheduler.count = 10\<rparr>"

subsection \<open>PolyScheduler\<close>

record PolyScheduler = LRScheduler +
  power :: real
  total_update :: int

text \<open>
  \<^verbatim>\<open>total_update\<close> has the type of an integer, so the constructor's assertion
  \<^verbatim>\<open>isinstance(total_update, int)\<close> holds. The default of \<^verbatim>\<open>power\<close> is 0.9.
\<close>

definition PolyScheduler_init :: "int \<Rightarrow> real \<Rightarrow> error + PolyScheduler" where
  "PolyScheduler_init total_update_arg power_arg =
     (if power_arg > 1.0 \<or> power_arg < 0.0 then
        Inl (ValueError ''Power must be no more than 1 and larger than 0.'')
      else
        Inr \<lparr>base_lr = base_lr LRScheduler_init,
             power = power_arg,
             total_update = total_update_arg\<rparr>)"

text \<open>
  The conversion of an integer to a float. The largest binary64 float is
  \<open>2 ^ 1024 - 2 ^ 971\<close>; the conversion rounds to the nearest float, ties to even, so
  it raises \<^verbatim>\<open>OverflowError\<close> (``int too large to convert to float'') exactly for the
  integers of magnitude \<open>2 ^ 1024 - 2 ^ 970\<close> and above.
\<close>

definition float_overflow_bound :: int where
  "float_overflow_bound = 2 ^ 1024 - 2 ^ 970"

definition py_float :: "int \<Rightarrow> error + real" where
  "py_float n =
     (if \<bar>n\<bar> \<ge> float_overflow_bound then Inl OverflowError else Inr (real_of_int n))"

text \<open>
  \<^verbatim>\<open>math.pow(x, y)\<close> on finite arguments: \<open>pow(x, 0)\<close> is 1 for every \<open>x\<close>, also for
  \<open>x = 0\<close>; \<open>pow(0, y)\<close> is 0 for positive \<open>y\<close> and a \<^verbatim>\<open>ValueError\<close> for negative \<open>y\<close>;
  a negative base with an exponent that is not an integer is a \<^verbatim>\<open>ValueError\<close>.
\<close>

definition math_pow :: "real \<Rightarrow> real \<Rightarrow> error + real" where
  "math_pow x y =
     (if y = 0 then Inr 1
      else if x = 0 then
        (if y < 0 then Inl (ValueError ''math domain error'') else Inr 0)
      else if x < 0 then
        (if y = of_int \<lfloor>y\<rfloor> then Inr (x powi \<lfloor>y\<rfloor>)
         else Inl (ValueError ''math domain error''))
      else Inr (x powr y))"

text \<open>
  \<^verbatim>\<open>__call__\<close> assigns to no field: the object after the call is the object before
  it, also when the call raises. The expression
  \<^verbatim>\<open>float(num_update) / self.total_update\<close> first converts \<^verbatim>\<open>num_update\<close>, then, for
  the division of a float by an integer, converts \<^verbatim>\<open>total_update\<close>; either
  conversion can raise \<^verbatim>\<open>OverflowError\<close>. The division then raises
  \<^verbatim>\<open>ZeroDivisionError\<close> when \<^verbatim>\<open>total_update\<close> is 0.
\<close>

definition PolyScheduler_call ::
  "PolyScheduler \<Rightarrow> int \<Rightarrow> (error + real) \<times> PolyScheduler" where
  "PolyScheduler_call self num_update =
     (case py_float num_update of
        Inl e \<Rightarrow> (Inl e, self)
      | Inr x \<Rightarrow>
          (case py_float (total_update self) of
             Inl e \<Rightarrow> (Inl e, self)
           | Inr t \<Rightarrow>
               if t = 0 then (Inl ZeroDivisionError, self)
               else
                 (case math_pow (1 - x / t) (power self) of
                    Inl e \<Rightarrow> (Inl e, self)
                  | Inr p \<Rightarrow> (Inr (base_lr self * p), self))))"

section \<open>FactorScheduler: one call\<close>

lemma FactorScheduler_call_params:
  "FactorScheduler.step (fst (snd (FactorScheduler_call self n))) = FactorScheduler.step self"
  "FactorScheduler.factor (fst (snd (FactorScheduler_call self n))) = FactorScheduler.factor self"
  "stop_factor_lr (fst (snd (FactorScheduler_call self n))) = stop_factor_lr self"
  by (simp_all add: FactorScheduler_call_def Let_def)

lemma FactorScheduler_call_rate:
  "fst (FactorScheduler_call self n) = base_lr (fst (snd (FactorScheduler_call self n)))"
  by (simp add: FactorScheduler_call_def Let_def)

text \<open>
  C5. A call decays exactly when \<open>num_update > count + step\<close>. Then \<open>count\<close> grows by
  \<open>step\<close>, once, however far \<open>num_update\<close> lies beyond \<open>count + step\<close>, and \<open>base_lr\<close>
  becomes its product with \<open>factor\<close>, raised to \<open>stop_factor_lr\<close> when the product is
  below it; the new \<open>base_lr\<close> is returned and one event is logged. Otherwise the object
  is unchanged, its \<open>base_lr\<close> is returned and nothing is logged.
\<close>

theorem FactorScheduler_call_decay:
  "FactorScheduler_call self num_update =
     (if num_update > FactorScheduler.count self + FactorScheduler.step self then
        (max (base_lr self * FactorScheduler.factor self) (stop_factor_lr self),
         self\<lparr>FactorScheduler.count := FactorScheduler.count self + FactorScheduler.step self,
              base_lr := max (base_lr self * FactorScheduler.factor self) (stop_factor_lr self)\<rparr>,
         if base_lr self * FactorScheduler.factor self < stop_factor_lr self
         then [Arrived_at num_update (stop_factor_lr self)]
         else [Change_to num_update (base_lr self * FactorScheduler.factor self)])
      else (base_lr self, self, []))"
  by (simp add: FactorScheduler_call_def Let_def max_def)

section \<open>FactorScheduler: sequences of calls\<close>

text \<open>
  C1, as the code has it. With \<open>step = 2\<close> and \<open>factor = 0.5\<close> the calls with
  \<open>num_update = 0, 1, 2\<close> return the initial rate 0.01, the call with \<open>num_update = 3\<close>
  halves it, the call with 4 leaves it, the call with \<open>num_update = 5\<close> (the first value
  above \<open>2 + 2\<close>) halves it a second time, and the call with 6 leaves it.
\<close>

theorem FactorScheduler_step2_rates:
  "\<exists>self. FactorScheduler_init 2 0.5 default_stop_factor_lr = Inr self \<and>
     base_lr self = 0.01 \<and>
     FactorScheduler_rates self [0, 1, 2, 3, 4, 5, 6] =
       [0.01, 0.01, 0.01, 0.005, 0.005, 0.0025, 0.0025]"
  by (simp add: FactorScheduler_init_def default_stop_factor_lr_def LRScheduler_init_def
      FactorScheduler_call_def Let_def)

text \<open>
  The rate does not stay unchanged from the call with \<open>num_update = 3\<close> until the call
  with \<open>num_update = 6\<close>: the sixth call of the sequence (\<open>num_update = 5\<close>) returns a rate
  different from the fifth (\<open>num_update = 4\<close>), and the seventh (\<open>num_update = 6\<close>) does not
  halve the rate of the sixth.
\<close>

theorem FactorScheduler_step2_second_decay_at_5:
  "FactorScheduler_init 2 0.5 default_stop_factor_lr =
     Inr \<lparr>base_lr = 0.01, FactorScheduler.step = 2, FactorScheduler.factor = 0.5,
          stop_factor_lr = default_stop_factor_lr, FactorScheduler.count = 0\<rparr> \<and>
   FactorScheduler_rates
       \<lparr>base_lr = 0.01, FactorScheduler.step = 2, FactorScheduler.factor = 0.5,
        stop_factor_lr = default_stop_factor_lr, FactorScheduler.count = 0\<rparr>
       [0, 1, 2, 3, 4, 5, 6] ! 5
     \<noteq> FactorScheduler_rates
       \<lparr>base_lr = 0.01, FactorScheduler.step = 2, FactorScheduler.factor = 0.5,
        stop_factor_lr = default_stop_factor_lr, FactorScheduler.count = 0\<rparr>
       [0, 1, 2, 3, 4, 5, 6] ! 4 \<and>
   FactorScheduler_rates
       \<lparr>base_lr = 0.01, FactorScheduler.step = 2, FactorScheduler.factor = 0.5,
        stop_factor_lr = default_stop_factor_lr, FactorScheduler.count = 0\<rparr>
       [0, 1, 2, 3, 4, 5, 6] ! 6
     = FactorScheduler_rates
       \<lparr>base_lr = 0.01, FactorScheduler.step = 2, FactorScheduler.factor = 0.5,
        stop_factor_lr = default_stop_factor_lr, FactorScheduler.count = 0\<rparr>
       [0, 1, 2, 3, 4, 5, 6] ! 5"
  by (simp add: FactorScheduler_init_def default_stop_factor_lr_def LRScheduler_init_def
      FactorScheduler_call_def Let_def)

text \<open>
  The invariant behind the floor: while \<open>base_lr\<close> is non-negative and not below
  \<open>stop_factor_lr\<close>, with a factor of at most 1 that is non-negative unless the floor is,
  a call neither raises \<open>base_lr\<close> nor takes it below the floor or below 0.
\<close>

lemma FactorScheduler_call_bounds:
  assumes "stop_factor_lr self \<le> base_lr self" "0 \<le> base_lr self"
    and "FactorScheduler.factor self \<le> 1"
    and "0 \<le> FactorScheduler.factor self \<or> 0 \<le> stop_factor_lr self"
  shows "base_lr (fst (snd (FactorScheduler_call self n))) \<le> base_lr self"
    and "stop_factor_lr self \<le> base_lr (fst (snd (FactorScheduler_call self n)))"
    and "0 \<le> base_lr (fst (snd (FactorScheduler_call self n)))"
proof -
  have le: "base_lr self * FactorScheduler.factor self \<le> base_lr self"
    using assms(2,3) by (simp add: mult_left_le)
  show "base_lr (fst (snd (FactorScheduler_call self n))) \<le> base_lr self"
    using le assms(1) by (simp add: FactorScheduler_call_def Let_def)
  show "stop_factor_lr self \<le> base_lr (fst (snd (FactorScheduler_call self n)))"
    using assms(1) by (simp add: FactorScheduler_call_def Let_def)
  show "0 \<le> base_lr (fst (snd (FactorScheduler_call self n)))"
  proof (cases "0 \<le> FactorScheduler.factor self")
    case True
    then have "0 \<le> base_lr self * FactorScheduler.factor self"
      using assms(2) by simp
    then show ?thesis
      using assms(2) by (simp add: FactorScheduler_call_def Let_def)
  next
    case False
    then have "0 \<le> stop_factor_lr self"
      using assms(4) by simp
    then show ?thesis
      using assms(2) by (simp add: FactorScheduler_call_def Let_def)
  qed
qed

lemma FactorScheduler_rates_bounds:
  assumes "stop_factor_lr self \<le> base_lr self" "0 \<le> base_lr self"
    and "FactorScheduler.factor self \<le> 1"
    and "0 \<le> FactorScheduler.factor self \<or> 0 \<le> stop_factor_lr self"
  shows "sorted_wrt (\<ge>) (FactorScheduler_rates self ns) \<and>
         (\<forall>r \<in> set (FactorScheduler_rates self ns).
            stop_factor_lr self \<le> r \<and> r \<le> base_lr self)"
  using assms
proof (induction ns arbitrary: self)
  case Nil
  then show ?case by simp
next
  case (Cons n ns)
  let ?s = "fst (snd (FactorScheduler_call self n))"
  have b: "base_lr ?s \<le> base_lr self" "stop_factor_lr self \<le> base_lr ?s" "0 \<le> base_lr ?s"
    using FactorScheduler_call_bounds[OF Cons.prems] by blast+
  have IH: "sorted_wrt (\<ge>) (FactorScheduler_rates ?s ns) \<and>
         (\<forall>r \<in> set (FactorScheduler_rates ?s ns).
            stop_factor_lr ?s \<le> r \<and> r \<le> base_lr ?s)"
    using Cons.prems b by (intro Cons.IH) (simp_all add: FactorScheduler_call_params)
  show ?case
    using IH b
    by (auto simp add: case_prod_beta FactorScheduler_call_rate FactorScheduler_call_params)
qed

text \<open>
  C2, as the code has it. For a FactorScheduler that was constructed (so \<open>step \<ge> 1\<close> and
  \<open>factor \<le> 1\<close>) with a floor \<open>stop_factor_lr\<close> that is not above the initial rate 0.01,
  and with a factor or a floor that is not negative, the rates returned by any sequence
  of calls are non-increasing and none is below the floor.
\<close>

theorem FactorScheduler_rates_nonincreasing_above_floor:
  assumes "FactorScheduler_init step_arg factor_arg L = Inr self"
    and "L \<le> 0.01" and "0 \<le> factor_arg \<or> 0 \<le> L"
  shows "sorted_wrt (\<ge>) (FactorScheduler_rates self ns) \<and>
         (\<forall>r \<in> set (FactorScheduler_rates self ns). L \<le> r)"
proof -
  from assms(1) have f: "factor_arg \<le> 1"
    and s: "self = \<lparr>base_lr = 0.01, FactorScheduler.step = step_arg,
                    FactorScheduler.factor = factor_arg, stop_factor_lr = L,
                    FactorScheduler.count = 0\<rparr>"
    by (auto simp add: FactorScheduler_init_def LRScheduler_init_def split: if_splits)
  have "sorted_wrt (\<ge>) (FactorScheduler_rates self ns) \<and>
         (\<forall>r \<in> set (FactorScheduler_rates self ns).
            stop_factor_lr self \<le> r \<and> r \<le> base_lr self)"
    using f assms(2,3) by (intro FactorScheduler_rates_bounds) (simp_all add: s)
  then show ?thesis by (simp add: s)
qed

theorem FactorScheduler_rates_nonincreasing_above_floor_witness:
  "FactorScheduler_init 2 0.5 0.004 =
     Inr \<lparr>base_lr = 0.01, FactorScheduler.step = 2, FactorScheduler.factor = 0.5,
          stop_factor_lr = 0.004, FactorScheduler.count = 0\<rparr> \<and>
   sorted_wrt (\<ge>) (FactorScheduler_rates
     \<lparr>base_lr = 0.01, FactorScheduler.step = 2, FactorScheduler.factor = 0.5,
      stop_factor_lr = 0.004, FactorScheduler.count = 0\<rparr> [0, 3, 5]) \<and>
   list_all (\<lambda>r. 0.004 \<le> r) (FactorScheduler_rates
     \<lparr>base_lr = 0.01, FactorScheduler.step = 2, FactorScheduler.factor = 0.5,
      stop_factor_lr = 0.004, FactorScheduler.count = 0\<rparr> [0, 3, 5])"
proof -
  have i: "FactorScheduler_init 2 0.5 0.004 =
     Inr \<lparr>base_lr = 0.01, FactorScheduler.step = 2, FactorScheduler.factor = 0.5,
          stop_factor_lr = 0.004, FactorScheduler.count = 0\<rparr>"
    by (simp add: FactorScheduler_init_def LRScheduler_init_def)
  have "(0.004::real) \<le> 0.01" "(0::real) \<le> 0.5 \<or> (0::real) \<le> 0.004"
    by simp_all
  from FactorScheduler_rates_nonincreasing_above_floor[OF i this, of "[0, 3, 5]"] i
  show ?thesis
    unfolding list_all_iff by blast
qed

text \<open>
  The constructor accepts a floor above the initial rate. With \<open>stop_factor_lr = 1\<close> the
  first call returns 0.01, which is below the floor, and the first decay raises the
  rate to the floor, so the rates of the calls with \<open>num_update = 0, 2\<close> increase. It
  also accepts a negative factor with a negative floor: with both \<open>-1\<close> the rate
  changes sign at every decay, so the rates of the calls with \<open>num_update = 0, 2, 3\<close>
  go down and up again.
\<close>

theorem FactorScheduler_floor_above_initial_rate:
  "FactorScheduler_init 1 0.5 1 =
     Inr \<lparr>base_lr = 0.01, FactorScheduler.step = 1, FactorScheduler.factor = 0.5,
          stop_factor_lr = 1, FactorScheduler.count = 0\<rparr> \<and>
   FactorScheduler_rates
     \<lparr>base_lr = 0.01, FactorScheduler.step = 1, FactorScheduler.factor = 0.5,
      stop_factor_lr = 1, FactorScheduler.count = 0\<rparr> [0, 2] = [0.01, 1] \<and>
   (0.01::real) < 1 \<and>
   FactorScheduler_init 1 (- 1) (- 1) =
     Inr \<lparr>base_lr = 0.01, FactorScheduler.step = 1, FactorScheduler.factor = - 1,
          stop_factor_lr = - 1, FactorScheduler.count = 0\<rparr> \<and>
   FactorScheduler_rates
     \<lparr>base_lr = 0.01, FactorScheduler.step = 1, FactorScheduler.factor = - 1,
      stop_factor_lr = - 1, FactorScheduler.count = 0\<rparr> [0, 2, 3] = [0.01, - 0.01, 0.01] \<and>
   (- 0.01::real) < 0.01"
  by (simp add: FactorScheduler_init_def LRScheduler_init_def FactorScheduler_call_def Let_def)

section \<open>MultiFactorScheduler: one call and sequences of calls\<close>

lemma MultiFactorScheduler_call_step:
  "MultiFactorScheduler.step (fst (snd (MultiFactorScheduler_call self n))) =
     MultiFactorScheduler.step self"
  by (simp add: MultiFactorScheduler_call_def Let_def)

lemma MultiFactorScheduler_call_ind:
  "cur_step_ind self \<le> cur_step_ind (fst (snd (MultiFactorScheduler_call self n)))"
  "cur_step_ind (fst (snd (MultiFactorScheduler_call self n))) \<le> cur_step_ind self + 1"
  "cur_step_ind self \<le> length (MultiFactorScheduler.step self) \<Longrightarrow>
     cur_step_ind (fst (snd (MultiFactorScheduler_call self n)))
       \<le> length (MultiFactorScheduler.step self)"
  by (auto simp add: MultiFactorScheduler_call_def Let_def)

lemma MultiFactorScheduler_call_exhausted:
  "cur_step_ind self = length (MultiFactorScheduler.step self) \<Longrightarrow>
     MultiFactorScheduler_call self n = (base_lr self, self, [])"
  by (simp add: MultiFactorScheduler_call_def)

lemma MultiFactorScheduler_after_append:
  "MultiFactorScheduler_after self (ns @ ms) =
     MultiFactorScheduler_after (MultiFactorScheduler_after self ns) ms"
  by (induction ns arbitrary: self) (simp_all add: case_prod_beta)

lemma MultiFactorScheduler_rates_append:
  "MultiFactorScheduler_rates self (ns @ ms) =
     MultiFactorScheduler_rates self ns @
     MultiFactorScheduler_rates (MultiFactorScheduler_after self ns) ms"
  by (induction ns arbitrary: self) (simp_all add: case_prod_beta)

lemma MultiFactorScheduler_after_step:
  "MultiFactorScheduler.step (MultiFactorScheduler_after self ns) =
     MultiFactorScheduler.step self"
  by (induction ns arbitrary: self) (simp_all add: case_prod_beta MultiFactorScheduler_call_step)

lemma MultiFactorScheduler_after_ind_mono:
  "cur_step_ind self \<le> cur_step_ind (MultiFactorScheduler_after self ns)"
proof (induction ns arbitrary: self)
  case Nil
  show ?case by simp
next
  case (Cons n ns)
  let ?s = "fst (snd (MultiFactorScheduler_call self n))"
  have "cur_step_ind self \<le> cur_step_ind ?s"
    by (rule MultiFactorScheduler_call_ind)
  also have "\<dots> \<le> cur_step_ind (MultiFactorScheduler_after ?s ns)"
    by (rule Cons.IH)
  finally show ?case by (simp add: case_prod_beta)
qed

lemma MultiFactorScheduler_after_ind_bound:
  "cur_step_ind self \<le> length (MultiFactorScheduler.step self) \<Longrightarrow>
   cur_step_ind (MultiFactorScheduler_after self ns) \<le> length (MultiFactorScheduler.step self)"
proof (induction ns arbitrary: self)
  case Nil
  then show ?case by simp
next
  case (Cons n ns)
  let ?s = "fst (snd (MultiFactorScheduler_call self n))"
  have "cur_step_ind ?s \<le> length (MultiFactorScheduler.step ?s)"
    using Cons.prems by (simp add: MultiFactorScheduler_call_ind MultiFactorScheduler_call_step)
  from Cons.IH[OF this] show ?case
    by (simp add: case_prod_beta MultiFactorScheduler_call_step)
qed

lemma MultiFactorScheduler_exhausted_calls:
  "cur_step_ind self = length (MultiFactorScheduler.step self) \<Longrightarrow>
     MultiFactorScheduler_after self ms = self \<and>
     MultiFactorScheduler_rates self ms = replicate (length ms) (base_lr self)"
  by (induction ms) (simp_all add: MultiFactorScheduler_call_exhausted)

text \<open>
  C7. Take a MultiFactorScheduler as constructed and any calls \<open>ns\<close> on it, then a call
  \<open>n\<close>, or calls \<open>ms\<close>. \<open>cur_step_ind\<close> after \<open>ns\<close> is not above its value after the
  further calls \<open>ms\<close>, is at most the number of milestones, and grows by at most one in
  the call \<open>n\<close>. When it equals the number of milestones, the call \<open>n\<close> returns the
  current \<open>base_lr\<close>, changes no field and logs nothing, and so do all the calls \<open>ms\<close>.
  The calls need not have non-decreasing \<open>num_update\<close>.
\<close>

theorem MultiFactorScheduler_cur_step_ind:
  assumes "MultiFactorScheduler_init steps factor_arg = Inr self0"
  shows "cur_step_ind (MultiFactorScheduler_after self0 ns)
           \<le> cur_step_ind (MultiFactorScheduler_after self0 (ns @ ms)) \<and>
         cur_step_ind (MultiFactorScheduler_after self0 ns) \<le> length steps \<and>
         cur_step_ind (MultiFactorScheduler_after self0 (ns @ [n]))
           \<le> cur_step_ind (MultiFactorScheduler_after self0 ns) + 1 \<and>
         (cur_step_ind (MultiFactorScheduler_after self0 ns) = length steps \<longrightarrow>
            MultiFactorScheduler_call (MultiFactorScheduler_after self0 ns) n =
              (base_lr (MultiFactorScheduler_after self0 ns),
               MultiFactorScheduler_after self0 ns, []) \<and>
            MultiFactorScheduler_after self0 (ns @ ms) = MultiFactorScheduler_after self0 ns \<and>
            MultiFactorScheduler_rates (MultiFactorScheduler_after self0 ns) ms =
              replicate (length ms) (base_lr (MultiFactorScheduler_after self0 ns)))"
proof -
  let ?s = "MultiFactorScheduler_after self0 ns"
  from assms have s0: "MultiFactorScheduler.step self0 = steps" "cur_step_ind self0 = 0"
    by (auto simp add: MultiFactorScheduler_init_def split: if_splits option.splits)
  have st: "MultiFactorScheduler.step ?s = steps"
    by (simp add: MultiFactorScheduler_after_step s0)
  have 1: "cur_step_ind ?s \<le> cur_step_ind (MultiFactorScheduler_after self0 (ns @ ms))"
    by (simp add: MultiFactorScheduler_after_append MultiFactorScheduler_after_ind_mono)
  have 2: "cur_step_ind ?s \<le> length steps"
    using MultiFactorScheduler_after_ind_bound[of self0 ns] by (simp add: s0)
  have 3: "cur_step_ind (MultiFactorScheduler_after self0 (ns @ [n])) \<le> cur_step_ind ?s + 1"
    using MultiFactorScheduler_call_ind(2)[of ?s n]
    by (simp add: MultiFactorScheduler_after_append case_prod_beta)
  have 4: "MultiFactorScheduler_call ?s n = (base_lr ?s, ?s, []) \<and>
            MultiFactorScheduler_after self0 (ns @ ms) = ?s \<and>
            MultiFactorScheduler_rates ?s ms = replicate (length ms) (base_lr ?s)"
    if "cur_step_ind ?s = length steps"
    using that MultiFactorScheduler_exhausted_calls[of ?s ms]
    by (simp add: MultiFactorScheduler_after_append MultiFactorScheduler_call_exhausted st)
  from 1 2 3 4 show ?thesis by blast
qed

theorem MultiFactorScheduler_cur_step_ind_witness:
  "MultiFactorScheduler_init [5, 10] 0.1 = Inr milestones_5_10_initial \<and>
   cur_step_ind (MultiFactorScheduler_after milestones_5_10_initial [6, 11]) = 2 \<and>
   MultiFactorScheduler_after milestones_5_10_initial [6, 11, 12, 40] =
     milestones_5_10_second \<and>
   MultiFactorScheduler_rates
     (MultiFactorScheduler_after milestones_5_10_initial [6, 11]) [12, 40]
     = [0.0001, 0.0001]"
proof -
  have i: "MultiFactorScheduler_init [5, 10] 0.1 = Inr milestones_5_10_initial"
    by (simp add: MultiFactorScheduler_init_def LRScheduler_init_def check_steps.simps)
  have a: "MultiFactorScheduler_after milestones_5_10_initial [6, 11] = milestones_5_10_second"
    by (simp add: MultiFactorScheduler_call_def Let_def)
  from MultiFactorScheduler_cur_step_ind[OF i, of "[6, 11]" "[12, 40]" 12] i show ?thesis
    unfolding a by (simp add: MultiFactorScheduler_call_def Let_def)
qed

text \<open>The state and the rates of the scheduler with milestones \<open>[5, 10]\<close> after the calls 0 to \<open>k\<close>.\<close>

lemma milestones_5_10_after_upto:
  "MultiFactorScheduler_after milestones_5_10_initial [0..int k] =
     (if k \<le> 5 then milestones_5_10_initial
      else if k \<le> 10 then milestones_5_10_first
      else milestones_5_10_second)"
proof (induction k)
  case 0
  show ?case by (simp add: upto.simps MultiFactorScheduler_call_def)
next
  case (Suc k)
  have u: "[0..int (Suc k)] = [0..int k] @ [int k + 1]"
    using upto_rec2[of 0 "int (Suc k)"] by (simp add: add.commute)
  consider "k \<le> 4" | "k = 5" | "6 \<le> k \<and> k \<le> 9" | "k = 10" | "11 \<le> k"
    by linarith
  then show ?case
    unfolding u MultiFactorScheduler_after_append Suc.IH
    by cases (simp_all add: MultiFactorScheduler_call_def Let_def)
qed

lemma milestones_5_10_rates_upto:
  "MultiFactorScheduler_rates milestones_5_10_initial [0..int k] =
     map (\<lambda>n. if n \<le> 5 then 0.01 else if n \<le> 10 then 0.001 else 0.0001) [0..int k]"
proof (induction k)
  case 0
  show ?case by (simp add: upto.simps MultiFactorScheduler_call_def)
next
  case (Suc k)
  have u: "[0..int (Suc k)] = [0..int k] @ [int k + 1]"
    using upto_rec2[of 0 "int (Suc k)"] by (simp add: add.commute)
  consider "k \<le> 4" | "k = 5" | "6 \<le> k \<and> k \<le> 9" | "k = 10" | "11 \<le> k"
    by linarith
  then show ?case
    unfolding u MultiFactorScheduler_rates_append Suc.IH milestones_5_10_after_upto
    by cases (simp_all add: MultiFactorScheduler_call_def Let_def)
qed

text \<open>
  C6. The scheduler constructed with milestones \<open>[5, 10]\<close> and factor 0.1 starts at
  rate 0.01. Called once for each \<open>num_update\<close> from 0 up to any \<open>m\<close>, in order, it
  returns 0.01 at every \<open>num_update \<le> 5\<close>, 0.001 at every \<open>num_update\<close> from 6 to 10
  and 0.0001 at every \<open>num_update > 10\<close>.
\<close>

theorem MultiFactorScheduler_5_10_rates:
  "\<exists>self. MultiFactorScheduler_init [5, 10] 0.1 = Inr self \<and> base_lr self = 0.01 \<and>
     (\<forall>m. MultiFactorScheduler_rates self [0..m] =
        map (\<lambda>n. if n \<le> 5 then 0.01 else if n \<le> 10 then 0.001 else 0.0001) [0..m])"
proof -
  have i: "MultiFactorScheduler_init [5, 10] 0.1 = Inr milestones_5_10_initial"
    by (simp add: MultiFactorScheduler_init_def LRScheduler_init_def check_steps.simps)
  have "MultiFactorScheduler_rates milestones_5_10_initial [0..m] =
        map (\<lambda>n. if n \<le> 5 then 0.01 else if n \<le> 10 then 0.001 else 0.0001) [0..m]" for m
  proof (cases "0 \<le> m")
    case True
    then have "m = int (nat m)" by simp
    then show ?thesis using milestones_5_10_rates_upto[of "nat m"] by simp
  next
    case False
    then show ?thesis by simp
  qed
  with i show ?thesis by auto
qed

section \<open>Two calls with the same \<open>num_update\<close>\<close>

lemma PolyScheduler_call_state: "snd (PolyScheduler_call self n) = self"
  by (simp add: PolyScheduler_call_def split: sum.splits)

lemma float_overflow_bound_pos: "0 < float_overflow_bound"
  by (simp add: float_overflow_bound_def)

lemma py_float_in_range: "\<bar>n\<bar> < float_overflow_bound \<Longrightarrow> py_float n = Inr (real_of_int n)"
  by (simp add: py_float_def)

lemma py_float_overflow: "float_overflow_bound \<le> \<bar>n\<bar> \<Longrightarrow> py_float n = Inl OverflowError"
  by (simp add: py_float_def)

lemma small_in_float_range: "\<bar>n\<bar> \<le> 1000 \<Longrightarrow> \<bar>n\<bar> < float_overflow_bound"
  by (simp add: float_overflow_bound_def)

lemma py_float_small: "\<bar>n\<bar> \<le> 1000 \<Longrightarrow> py_float n = Inr (real_of_int n)"
  by (simp add: py_float_in_range small_in_float_range)

text \<open>
  C3, as the code has it. Two calls in immediate succession with the same \<open>num_update\<close>
  return the same rate
  \<^item> on a PolyScheduler, always (the same result, a rate or an error);
  \<^item> on a FactorScheduler, when \<open>num_update \<le> count + 2 * step\<close> before the first call;
  \<^item> on a MultiFactorScheduler, when \<open>num_update\<close> is not above the milestone that
    follows the one at \<open>cur_step_ind\<close>, or there is none.
  The states are arbitrary, so the reachable ones are covered.
\<close>

theorem same_num_update_same_rate:
  "fst (PolyScheduler_call (snd (PolyScheduler_call p n)) n) = fst (PolyScheduler_call p n) \<and>
   (n \<le> FactorScheduler.count f + 2 * FactorScheduler.step f \<longrightarrow>
      fst (FactorScheduler_call (fst (snd (FactorScheduler_call f n))) n)
        = fst (FactorScheduler_call f n)) \<and>
   ((Suc (cur_step_ind m) < length (MultiFactorScheduler.step m) \<longrightarrow>
       n \<le> MultiFactorScheduler.step m ! Suc (cur_step_ind m)) \<longrightarrow>
      fst (MultiFactorScheduler_call (fst (snd (MultiFactorScheduler_call m n))) n)
        = fst (MultiFactorScheduler_call m n))"
proof (intro conjI impI)
  show "fst (PolyScheduler_call (snd (PolyScheduler_call p n)) n) = fst (PolyScheduler_call p n)"
    by (simp add: PolyScheduler_call_state)
next
  assume "n \<le> FactorScheduler.count f + 2 * FactorScheduler.step f"
  then show "fst (FactorScheduler_call (fst (snd (FactorScheduler_call f n))) n)
        = fst (FactorScheduler_call f n)"
    by (simp add: FactorScheduler_call_def Let_def)
next
  assume a: "Suc (cur_step_ind m) < length (MultiFactorScheduler.step m) \<longrightarrow>
       n \<le> MultiFactorScheduler.step m ! Suc (cur_step_ind m)"
  show "fst (MultiFactorScheduler_call (fst (snd (MultiFactorScheduler_call m n))) n)
        = fst (MultiFactorScheduler_call m n)"
  proof (cases "Suc (cur_step_ind m) < length (MultiFactorScheduler.step m)")
    case True
    with a have "n \<le> MultiFactorScheduler.step m ! Suc (cur_step_ind m)" by simp
    then show ?thesis
      by (simp add: MultiFactorScheduler_call_def Let_def)
  next
    case False
    then have "\<not> int (cur_step_ind m) + 1 \<le> int (length (MultiFactorScheduler.step m)) - 1"
      by simp
    then show ?thesis
      by (simp add: MultiFactorScheduler_call_def Let_def)
  qed
qed

theorem same_num_update_same_rate_witness:
  "(3::int) \<le> 0 + 2 * 2 \<and>
   fst (FactorScheduler_call (fst (snd (FactorScheduler_call
     \<lparr>base_lr = 0.01, FactorScheduler.step = 2, FactorScheduler.factor = 0.5,
      stop_factor_lr = default_stop_factor_lr, FactorScheduler.count = 0\<rparr> 3))) 3) = 0.005 \<and>
   (7::int) \<le> [5, 10] ! Suc 0 \<and>
   fst (MultiFactorScheduler_call (fst (snd (MultiFactorScheduler_call
     milestones_5_10_initial 7))) 7) = 0.001 \<and>
   fst (PolyScheduler_call (snd (PolyScheduler_call
     \<lparr>base_lr = 0.01, power = 1, total_update = 100\<rparr> 50)) 50) = Inr 0.005"
  using same_num_update_same_rate[of
      "\<lparr>base_lr = 0.01, power = 1, total_update = 100\<rparr>" 50 _ _]
    same_num_update_same_rate[of _ 3
      "\<lparr>base_lr = 0.01, FactorScheduler.step = 2, FactorScheduler.factor = 0.5,
        stop_factor_lr = default_stop_factor_lr, FactorScheduler.count = 0\<rparr>" _]
    same_num_update_same_rate[of _ 7 _ milestones_5_10_initial]
  by (simp add: FactorScheduler_call_def MultiFactorScheduler_call_def PolyScheduler_call_def
      math_pow_def Let_def default_stop_factor_lr_def py_float_small)

text \<open>
  After a jump of \<open>num_update\<close> the second call decays again. A FactorScheduler with
  \<open>step = 2\<close> and \<open>factor = 0.5\<close>, as constructed, returns 0.005 and then 0.0025 on two
  calls with \<open>num_update = 10\<close>; a MultiFactorScheduler with milestones \<open>[5, 10]\<close> and
  factor 0.1, as constructed, returns 0.001 and then 0.0001 on two calls with
  \<open>num_update = 20\<close>.
\<close>

theorem repeated_call_decays_again:
  "FactorScheduler_init 2 0.5 default_stop_factor_lr =
     Inr \<lparr>base_lr = 0.01, FactorScheduler.step = 2, FactorScheduler.factor = 0.5,
          stop_factor_lr = default_stop_factor_lr, FactorScheduler.count = 0\<rparr> \<and>
   FactorScheduler_rates
       \<lparr>base_lr = 0.01, FactorScheduler.step = 2, FactorScheduler.factor = 0.5,
        stop_factor_lr = default_stop_factor_lr, FactorScheduler.count = 0\<rparr>
       [10, 10] = [0.005, 0.0025] \<and>
   MultiFactorScheduler_init [5, 10] 0.1 = Inr milestones_5_10_initial \<and>
   MultiFactorScheduler_rates milestones_5_10_initial [20, 20] = [0.001, 0.0001]"
  by (simp add: FactorScheduler_init_def default_stop_factor_lr_def LRScheduler_init_def
      FactorScheduler_call_def MultiFactorScheduler_init_def MultiFactorScheduler_call_def
      check_steps.simps Let_def)

section \<open>PolyScheduler\<close>

text \<open>
  C4, as the code has it. For a PolyScheduler constructed with a power in \<open>(0, 1]\<close> and
  a \<open>total_update\<close> that is not 0 and is in the range of a float (of magnitude below
  \<open>2 ^ 1024 - 2 ^ 970\<close>), the call with \<open>num_update = total_update\<close> returns exactly 0.
  The scheduler with \<open>total_update = 100\<close> and power 1 returns \<open>base_lr\<close> at
  \<open>num_update = 0\<close>, \<open>base_lr * 0.5\<close> at 50 and 0 at 100.
\<close>

theorem PolyScheduler_zero_at_total_update:
  "(0 < p \<and> p \<le> 1 \<and> t \<noteq> 0 \<and> \<bar>t\<bar> < float_overflow_bound \<longrightarrow>
      (\<exists>self. PolyScheduler_init t p = Inr self \<and>
         fst (PolyScheduler_call self t) = Inr 0)) \<and>
   (\<exists>self. PolyScheduler_init 100 1.0 = Inr self \<and> base_lr self = 0.01 \<and>
      fst (PolyScheduler_call self 0) = Inr (base_lr self) \<and>
      fst (PolyScheduler_call self 50) = Inr (base_lr self * 0.5) \<and>
      fst (PolyScheduler_call self 100) = Inr 0.0)"
proof (intro conjI impI)
  assume "0 < p \<and> p \<le> 1 \<and> t \<noteq> 0 \<and> \<bar>t\<bar> < float_overflow_bound"
  then show "\<exists>self. PolyScheduler_init t p = Inr self \<and>
         fst (PolyScheduler_call self t) = Inr 0"
    by (simp add: PolyScheduler_init_def PolyScheduler_call_def math_pow_def py_float_in_range)
next
  show "\<exists>self. PolyScheduler_init 100 1.0 = Inr self \<and> base_lr self = 0.01 \<and>
      fst (PolyScheduler_call self 0) = Inr (base_lr self) \<and>
      fst (PolyScheduler_call self 50) = Inr (base_lr self * 0.5) \<and>
      fst (PolyScheduler_call self 100) = Inr 0.0"
    by (simp add: PolyScheduler_init_def PolyScheduler_call_def math_pow_def
        LRScheduler_init_def py_float_small)
qed

theorem PolyScheduler_zero_at_total_update_witness:
  "(0::real) < 0.9 \<and> (0.9::real) \<le> 1 \<and> (200::int) \<noteq> 0 \<and>
   \<bar>200\<bar> < float_overflow_bound \<and>
   PolyScheduler_init 200 0.9 = Inr \<lparr>base_lr = 0.01, power = 0.9, total_update = 200\<rparr> \<and>
   fst (PolyScheduler_call \<lparr>base_lr = 0.01, power = 0.9, total_update = 200\<rparr> 200) = Inr 0"
  using PolyScheduler_zero_at_total_update[of "0.9" 200] small_in_float_range[of 200]
  by (simp add: PolyScheduler_init_def LRScheduler_init_def)

text \<open>
  With power 0, which the constructor accepts, \<^verbatim>\<open>math.pow(0.0, 0.0)\<close> is 1 and the call
  with \<open>num_update = total_update = 100\<close> returns \<open>base_lr = 0.01\<close>. With
  \<open>total_update = 0\<close>, which the constructor accepts too, the call with
  \<open>num_update = total_update\<close> raises \<^verbatim>\<open>ZeroDivisionError\<close>, and with
  \<open>total_update = 2 ^ 1024\<close>, beyond the range of a float, it raises
  \<^verbatim>\<open>OverflowError\<close>.
\<close>

theorem PolyScheduler_power_zero_at_total_update:
  "PolyScheduler_init 100 0 = Inr \<lparr>base_lr = 0.01, power = 0, total_update = 100\<rparr> \<and>
   fst (PolyScheduler_call \<lparr>base_lr = 0.01, power = 0, total_update = 100\<rparr> 100) = Inr 0.01 \<and>
   PolyScheduler_init 0 1 = Inr \<lparr>base_lr = 0.01, power = 1, total_update = 0\<rparr> \<and>
   fst (PolyScheduler_call \<lparr>base_lr = 0.01, power = 1, total_update = 0\<rparr> 0)
     = Inl ZeroDivisionError \<and>
   PolyScheduler_init (2 ^ 1024) 1 =
     Inr \<lparr>base_lr = 0.01, power = 1, total_update = 2 ^ 1024\<rparr> \<and>
   fst (PolyScheduler_call \<lparr>base_lr = 0.01, power = 1, total_update = 2 ^ 1024\<rparr> (2 ^ 1024))
     = Inl OverflowError"
proof -
  have "float_overflow_bound \<le> \<bar>2 ^ 1024\<bar>"
    by (simp add: float_overflow_bound_def)
  then have "py_float (2 ^ 1024) = Inl OverflowError"
    by (rule py_float_overflow)
  then show ?thesis
    by (simp add: PolyScheduler_init_def PolyScheduler_call_def math_pow_def
        LRScheduler_init_def py_float_small)
qed

text \<open>
  C9, as the code has it. The constructor of PolyScheduler accepts every integer
  \<open>total_update\<close>, zero and negative ones too, when the power is in \<open>[0, 1]\<close>. On the
  scheduler constructed with \<open>total_update = 0\<close> every call raises and returns no
  rate: \<^verbatim>\<open>ZeroDivisionError\<close> when \<open>num_update\<close> is in the range of a float (of magnitude
  below \<open>2 ^ 1024 - 2 ^ 970\<close>), and \<^verbatim>\<open>OverflowError\<close>, from \<^verbatim>\<open>float(num_update)\<close>,
  otherwise.
\<close>

theorem PolyScheduler_total_update_zero:
  assumes "0 \<le> p" "p \<le> 1"
  shows "(\<forall>t. PolyScheduler_init t p =
               Inr \<lparr>base_lr = 0.01, power = p, total_update = t\<rparr>) \<and>
         (\<forall>n. PolyScheduler_call \<lparr>base_lr = 0.01, power = p, total_update = 0\<rparr> n =
               (Inl (if \<bar>n\<bar> < float_overflow_bound then ZeroDivisionError
                     else OverflowError),
                \<lparr>base_lr = 0.01, power = p, total_update = 0\<rparr>))"
  using assms float_overflow_bound_pos
  by (simp add: PolyScheduler_init_def PolyScheduler_call_def LRScheduler_init_def py_float_def)

theorem PolyScheduler_total_update_zero_witness:
  "(0::real) \<le> 0.9 \<and> (0.9::real) \<le> 1 \<and>
   PolyScheduler_init 0 0.9 = Inr \<lparr>base_lr = 0.01, power = 0.9, total_update = 0\<rparr> \<and>
   PolyScheduler_init (- 3) 0.9 = Inr \<lparr>base_lr = 0.01, power = 0.9, total_update = - 3\<rparr> \<and>
   fst (PolyScheduler_call \<lparr>base_lr = 0.01, power = 0.9, total_update = 0\<rparr> 7)
     = Inl ZeroDivisionError"
proof -
  have "\<bar>7\<bar> < float_overflow_bound"
    using small_in_float_range[of 7] by simp
  with PolyScheduler_total_update_zero[of "0.9"] show ?thesis
    by simp
qed

text \<open>
  On the scheduler constructed with \<open>total_update = 0\<close> the call with
  \<open>num_update = 2 ^ 1024\<close> does not raise \<^verbatim>\<open>ZeroDivisionError\<close>: the conversion
  \<^verbatim>\<open>float(num_update)\<close> comes before the division and raises \<^verbatim>\<open>OverflowError\<close>.
\<close>

theorem PolyScheduler_total_update_zero_overflow:
  "PolyScheduler_init 0 0.9 = Inr \<lparr>base_lr = 0.01, power = 0.9, total_update = 0\<rparr> \<and>
   fst (PolyScheduler_call \<lparr>base_lr = 0.01, power = 0.9, total_update = 0\<rparr> (2 ^ 1024))
     = Inl OverflowError \<and>
   Inl OverflowError \<noteq> (Inl ZeroDivisionError :: error + real)"
proof -
  have "float_overflow_bound \<le> \<bar>2 ^ 1024\<bar>"
    by (simp add: float_overflow_bound_def)
  then have "py_float (2 ^ 1024) = Inl OverflowError"
    by (rule py_float_overflow)
  then show ?thesis
    by (simp add: PolyScheduler_init_def PolyScheduler_call_def LRScheduler_init_def)
qed

section \<open>The constructors\<close>

text \<open>
  The validation loop finds no error from index \<open>i\<close> on exactly when every entry from
  \<open>i\<close> on is at least 1 and, unless it is the first of the list, above the entry before
  it.
\<close>

lemma check_steps_None:
  "check_steps xs i = None \<longleftrightarrow>
     (\<forall>j. i \<le> j \<and> j < length xs \<longrightarrow>
        (j \<noteq> 0 \<longrightarrow> xs ! (j - 1) < xs ! j) \<and> 1 \<le> xs ! j)"
proof (induction xs i rule: check_steps.induct)
  case (1 xs i)
  show ?case
  proof (cases "i < length xs")
    case False
    then show ?thesis by (subst check_steps.simps) simp
  next
    case True
    show ?thesis
    proof (cases "(i \<noteq> 0 \<and> xs ! i \<le> xs ! (i - 1)) \<or> xs ! i < 1")
      case bad: True
      then have "check_steps xs i \<noteq> None"
        using True by (subst check_steps.simps) auto
      moreover have "\<not> (\<forall>j. i \<le> j \<and> j < length xs \<longrightarrow>
          (j \<noteq> 0 \<longrightarrow> xs ! (j - 1) < xs ! j) \<and> 1 \<le> xs ! j)"
      proof
        assume a: "\<forall>j. i \<le> j \<and> j < length xs \<longrightarrow>
          (j \<noteq> 0 \<longrightarrow> xs ! (j - 1) < xs ! j) \<and> 1 \<le> xs ! j"
        from a True have "(i \<noteq> 0 \<longrightarrow> xs ! (i - 1) < xs ! i) \<and> 1 \<le> xs ! i"
          by blast
        with bad show False by auto
      qed
      ultimately show ?thesis by blast
    next
      case good: False
      then have "check_steps xs i = check_steps xs (Suc i)"
        using True by (subst check_steps.simps) auto
      also have "\<dots> = None \<longleftrightarrow>
          (\<forall>j. Suc i \<le> j \<and> j < length xs \<longrightarrow>
             (j \<noteq> 0 \<longrightarrow> xs ! (j - 1) < xs ! j) \<and> 1 \<le> xs ! j)"
        using "1.IH" True good by auto
      also have "\<dots> \<longleftrightarrow>
          (\<forall>j. i \<le> j \<and> j < length xs \<longrightarrow>
             (j \<noteq> 0 \<longrightarrow> xs ! (j - 1) < xs ! j) \<and> 1 \<le> xs ! j)"
      proof (intro iffI allI impI)
        fix j
        assume a: "\<forall>j. Suc i \<le> j \<and> j < length xs \<longrightarrow>
            (j \<noteq> 0 \<longrightarrow> xs ! (j - 1) < xs ! j) \<and> 1 \<le> xs ! j"
          and j: "i \<le> j \<and> j < length xs"
        show "(j \<noteq> 0 \<longrightarrow> xs ! (j - 1) < xs ! j) \<and> 1 \<le> xs ! j"
        proof (cases "j = i")
          case True
          with good show ?thesis by auto
        next
          case False
          with j have "Suc i \<le> j \<and> j < length xs" by simp
          with a show ?thesis by blast
        qed
      next
        fix j
        assume a: "\<forall>j. i \<le> j \<and> j < length xs \<longrightarrow>
            (j \<noteq> 0 \<longrightarrow> xs ! (j - 1) < xs ! j) \<and> 1 \<le> xs ! j"
          and j: "Suc i \<le> j \<and> j < length xs"
        from j have "i \<le> j \<and> j < length xs" by simp
        with a show "(j \<noteq> 0 \<longrightarrow> xs ! (j - 1) < xs ! j) \<and> 1 \<le> xs ! j" by blast
      qed
      finally show ?thesis .
    qed
  qed
qed

lemma check_steps_0_None:
  "check_steps xs 0 = None \<longleftrightarrow> sorted_wrt (<) xs \<and> (\<forall>x \<in> set xs. 1 \<le> x)"
proof -
  have "sorted_wrt (<) xs \<longleftrightarrow> (\<forall>j. Suc j < length xs \<longrightarrow> xs ! j < xs ! Suc j)"
    by (rule sorted_wrt_iff_nth_Suc_transp) (simp add: transp_on_def)
  also have "\<dots> \<longleftrightarrow> (\<forall>j. j < length xs \<longrightarrow> j \<noteq> 0 \<longrightarrow> xs ! (j - 1) < xs ! j)"
  proof (intro iffI allI impI)
    fix j
    assume a: "\<forall>j. Suc j < length xs \<longrightarrow> xs ! j < xs ! Suc j" "j < length xs" "j \<noteq> 0"
    then obtain k where "j = Suc k" by (cases j) auto
    with a show "xs ! (j - 1) < xs ! j" by auto
  next
    fix j
    assume a: "\<forall>j. j < length xs \<longrightarrow> j \<noteq> 0 \<longrightarrow> xs ! (j - 1) < xs ! j"
      "Suc j < length xs"
    then have "xs ! (Suc j - 1) < xs ! Suc j" by blast
    then show "xs ! j < xs ! Suc j" by simp
  qed
  finally have s: "sorted_wrt (<) xs \<longleftrightarrow>
      (\<forall>j. j < length xs \<longrightarrow> j \<noteq> 0 \<longrightarrow> xs ! (j - 1) < xs ! j)" .
  have p: "(\<forall>x \<in> set xs. 1 \<le> x) \<longleftrightarrow> (\<forall>j. j < length xs \<longrightarrow> 1 \<le> xs ! j)"
    by (simp add: all_set_conv_all_nth)
  show ?thesis
    unfolding check_steps_None s p by auto
qed

text \<open>
  C8, as the code has it. Construction fails, with an error in place of an instance,
  exactly
  \<^item> for a FactorScheduler, when \<open>step < 1\<close> or \<open>factor > 1\<close>;
  \<^item> for a MultiFactorScheduler, when the list of milestones is empty, is not strictly
    increasing, has an entry below 1, or \<open>factor > 1\<close>;
  \<^item> for a PolyScheduler, when \<open>power > 1\<close> or \<open>power < 0\<close>.
  \<^verbatim>\<open>MultiFactorScheduler(step=[5,3])\<close>, \<^verbatim>\<open>FactorScheduler(step=0)\<close> (both with the
  default factor 1) and \<^verbatim>\<open>PolyScheduler(total_update=100, power=1.5)\<close> fail.
\<close>

theorem init_fails_iff:
  "(isl (FactorScheduler_init step_arg factor_arg L) \<longleftrightarrow> step_arg < 1 \<or> factor_arg > 1) \<and>
   (isl (MultiFactorScheduler_init steps factor_arg) \<longleftrightarrow>
      steps = [] \<or> \<not> sorted_wrt (<) steps \<or> (\<exists>x \<in> set steps. x < 1) \<or> factor_arg > 1) \<and>
   (isl (PolyScheduler_init t p) \<longleftrightarrow> p > 1 \<or> p < 0) \<and>
   isl (MultiFactorScheduler_init [5, 3] 1) \<and>
   isl (FactorScheduler_init 0 1 default_stop_factor_lr) \<and>
   isl (PolyScheduler_init 100 1.5)"
proof (intro conjI)
  show "isl (FactorScheduler_init step_arg factor_arg L) \<longleftrightarrow> step_arg < 1 \<or> factor_arg > 1"
    by (simp add: FactorScheduler_init_def)
  show "isl (PolyScheduler_init t p) \<longleftrightarrow> p > 1 \<or> p < 0"
    by (simp add: PolyScheduler_init_def)
  have "check_steps steps 0 = None \<longleftrightarrow>
      \<not> (\<not> sorted_wrt (<) steps \<or> (\<exists>x \<in> set steps. x < 1))"
    by (auto simp add: check_steps_0_None not_less)
  then show "isl (MultiFactorScheduler_init steps factor_arg) \<longleftrightarrow>
      steps = [] \<or> \<not> sorted_wrt (<) steps \<or> (\<exists>x \<in> set steps. x < 1) \<or> factor_arg > 1"
    by (cases "check_steps steps 0") (auto simp add: MultiFactorScheduler_init_def Suc_le_eq)
  show "isl (MultiFactorScheduler_init [5, 3] 1)"
    by (simp add: MultiFactorScheduler_init_def check_steps.simps)
  show "isl (FactorScheduler_init 0 1 default_stop_factor_lr)"
    by (simp add: FactorScheduler_init_def)
  show "isl (PolyScheduler_init 100 1.5)"
    by (simp add: PolyScheduler_init_def)
qed

theorem init_fails_iff_witness:
  "isl (FactorScheduler_init 0 0.5 0) \<and>
   \<not> isl (FactorScheduler_init 2 0.5 0) \<and>
   isl (MultiFactorScheduler_init [3, 3] 0.5) \<and>
   isl (MultiFactorScheduler_init [0, 3] 0.5) \<and>
   \<not> isl (MultiFactorScheduler_init [5, 10] 0.5) \<and>
   isl (PolyScheduler_init 100 (- 0.5)) \<and>
   \<not> isl (PolyScheduler_init 100 0.5)"
  using init_fails_iff[of 0 "0.5" 0 "[3, 3]" 100 "- 0.5"]
    init_fails_iff[of 2 "0.5" 0 "[0, 3]" 100 "0.5"]
    init_fails_iff[of 2 "0.5" 0 "[5, 10]" 100 "0.5"]
  by simp

text \<open>
  The empty list of milestones is strictly increasing and has no entry below 1, and
  the factor 1 is not above 1; the constructor's assertion \<^verbatim>\<open>len(step) >= 1\<close> fails
  on it.
\<close>

theorem MultiFactorScheduler_init_empty:
  "MultiFactorScheduler_init [] 1 = Inl AssertionError \<and>
   sorted_wrt (<) ([]::int list) \<and> set ([]::int list) = {} \<and> \<not> (1::real) > 1.0"
  by (simp add: MultiFactorScheduler_init_def)

text \<open>
  C10, as the code has it. The constructors of FactorScheduler and MultiFactorScheduler
  enforce only the upper bound on the factor: with the other arguments valid
  (\<open>step \<ge> 1\<close>; a non-empty, strictly increasing list of milestones that are at least 1)
  construction fails exactly when the factor is above 1, and with a factor that is
  zero or negative it succeeds and stores the factor. With such a factor
  \<^item> a decay of a MultiFactorScheduler returns \<open>base_lr * factor\<close>, which is zero for
    the factor 0 and of the opposite sign to \<open>base_lr\<close> for a negative factor;
  \<^item> a decay of a FactorScheduler returns that product only when it is not below
    \<open>stop_factor_lr\<close>, and \<open>stop_factor_lr\<close> otherwise; from a \<open>base_lr\<close> that is not
    negative and with a positive floor it returns the floor, which is neither zero nor
    of the opposite sign.
\<close>

theorem init_accepts_nonpositive_factor:
  assumes "factor_arg \<le> 0"
  shows "(1 \<le> step_arg \<longrightarrow>
           (isl (FactorScheduler_init step_arg g L) \<longleftrightarrow> g > 1) \<and>
           FactorScheduler_init step_arg factor_arg L =
             Inr \<lparr>base_lr = 0.01, FactorScheduler.step = step_arg,
                  FactorScheduler.factor = factor_arg, stop_factor_lr = L,
                  FactorScheduler.count = 0\<rparr>) \<and>
         (steps \<noteq> [] \<and> sorted_wrt (<) steps \<and> (\<forall>x \<in> set steps. 1 \<le> x) \<longrightarrow>
           (isl (MultiFactorScheduler_init steps g) \<longleftrightarrow> g > 1) \<and>
           MultiFactorScheduler_init steps factor_arg =
             Inr \<lparr>base_lr = 0.01, MultiFactorScheduler.step = steps, cur_step_ind = 0,
                  MultiFactorScheduler.factor = factor_arg,
                  MultiFactorScheduler.count = 0\<rparr>) \<and>
         (MultiFactorScheduler.factor m = factor_arg \<and>
          cur_step_ind m < length (MultiFactorScheduler.step m) \<and>
          MultiFactorScheduler.step m ! cur_step_ind m < n \<longrightarrow>
            fst (MultiFactorScheduler_call m n) = base_lr m * factor_arg \<and>
            (factor_arg = 0 \<longrightarrow> fst (MultiFactorScheduler_call m n) = 0) \<and>
            (factor_arg < 0 \<longrightarrow>
               sgn (fst (MultiFactorScheduler_call m n)) = - sgn (base_lr m))) \<and>
         (FactorScheduler.factor f = factor_arg \<and>
          FactorScheduler.count f + FactorScheduler.step f < n \<longrightarrow>
            fst (FactorScheduler_call f n) =
              (if base_lr f * factor_arg < stop_factor_lr f then stop_factor_lr f
               else base_lr f * factor_arg) \<and>
            (0 \<le> base_lr f \<and> 0 < stop_factor_lr f \<longrightarrow>
               fst (FactorScheduler_call f n) = stop_factor_lr f))"
proof (intro conjI impI)
  assume "1 \<le> step_arg"
  then show "isl (FactorScheduler_init step_arg g L) \<longleftrightarrow> g > 1"
    by (simp add: FactorScheduler_init_def)
  from \<open>1 \<le> step_arg\<close> show "FactorScheduler_init step_arg factor_arg L =
             Inr \<lparr>base_lr = 0.01, FactorScheduler.step = step_arg,
                  FactorScheduler.factor = factor_arg, stop_factor_lr = L,
                  FactorScheduler.count = 0\<rparr>"
    using assms by (simp add: FactorScheduler_init_def LRScheduler_init_def)
next
  assume v: "steps \<noteq> [] \<and> sorted_wrt (<) steps \<and> (\<forall>x \<in> set steps. 1 \<le> x)"
  then have c: "check_steps steps 0 = None"
    by (simp add: check_steps_0_None)
  show "isl (MultiFactorScheduler_init steps g) \<longleftrightarrow> g > 1"
    using c v by (simp add: MultiFactorScheduler_init_def Suc_le_eq)
  show "MultiFactorScheduler_init steps factor_arg =
             Inr \<lparr>base_lr = 0.01, MultiFactorScheduler.step = steps, cur_step_ind = 0,
                  MultiFactorScheduler.factor = factor_arg,
                  MultiFactorScheduler.count = 0\<rparr>"
    using assms c v
    by (simp add: MultiFactorScheduler_init_def LRScheduler_init_def Suc_le_eq)
next
  assume d: "MultiFactorScheduler.factor m = factor_arg \<and>
          cur_step_ind m < length (MultiFactorScheduler.step m) \<and>
          MultiFactorScheduler.step m ! cur_step_ind m < n"
  then have "int (cur_step_ind m) \<le> int (length (MultiFactorScheduler.step m)) - 1"
    by simp
  with d show r: "fst (MultiFactorScheduler_call m n) = base_lr m * factor_arg"
    by (simp add: MultiFactorScheduler_call_def Let_def)
  show "fst (MultiFactorScheduler_call m n) = 0" if "factor_arg = 0"
    using r that by simp
  show "sgn (fst (MultiFactorScheduler_call m n)) = - sgn (base_lr m)" if "factor_arg < 0"
    using r that by (simp add: sgn_mult)
next
  assume d: "FactorScheduler.factor f = factor_arg \<and>
          FactorScheduler.count f + FactorScheduler.step f < n"
  then show r: "fst (FactorScheduler_call f n) =
              (if base_lr f * factor_arg < stop_factor_lr f then stop_factor_lr f
               else base_lr f * factor_arg)"
    by (simp add: FactorScheduler_call_def Let_def)
  assume b: "0 \<le> base_lr f \<and> 0 < stop_factor_lr f"
  then have "base_lr f * factor_arg \<le> 0"
    using assms by (simp add: mult_le_0_iff)
  with b r show "fst (FactorScheduler_call f n) = stop_factor_lr f"
    by simp
qed

theorem init_accepts_nonpositive_factor_witness:
  "(- 1::real) \<le> 0 \<and> (1::int) \<le> 2 \<and>
   isl (FactorScheduler_init 2 1.5 default_stop_factor_lr) \<and>
   FactorScheduler_init 2 (- 1) default_stop_factor_lr =
     Inr \<lparr>base_lr = 0.01, FactorScheduler.step = 2, FactorScheduler.factor = - 1,
          stop_factor_lr = default_stop_factor_lr, FactorScheduler.count = 0\<rparr> \<and>
   sorted_wrt (<) [5, 10::int] \<and> list_all (\<lambda>x. 1 \<le> x) [5, 10::int] \<and>
   isl (MultiFactorScheduler_init [5, 10] 1.5) \<and>
   MultiFactorScheduler_init [5, 10] (- 1) =
     Inr \<lparr>base_lr = 0.01, MultiFactorScheduler.step = [5, 10], cur_step_ind = 0,
          MultiFactorScheduler.factor = - 1, MultiFactorScheduler.count = 0\<rparr> \<and>
   fst (MultiFactorScheduler_call
     \<lparr>base_lr = 0.01, MultiFactorScheduler.step = [5, 10], cur_step_ind = 0,
      MultiFactorScheduler.factor = - 1, MultiFactorScheduler.count = 0\<rparr> 6) = - 0.01 \<and>
   fst (FactorScheduler_call
     \<lparr>base_lr = 0.01, FactorScheduler.step = 2, FactorScheduler.factor = - 1,
      stop_factor_lr = - 1, FactorScheduler.count = 0\<rparr> 6) = - 0.01 \<and>
   fst (FactorScheduler_call
     \<lparr>base_lr = 0.01, FactorScheduler.step = 2, FactorScheduler.factor = - 1,
      stop_factor_lr = 0.00000001, FactorScheduler.count = 0\<rparr> 3) = 0.00000001"
  using init_accepts_nonpositive_factor[of "- 1" 2 "1.5" default_stop_factor_lr "[5, 10]"
      "\<lparr>base_lr = 0.01, MultiFactorScheduler.step = [5, 10], cur_step_ind = 0,
        MultiFactorScheduler.factor = - 1, MultiFactorScheduler.count = 0\<rparr>" 6
      "\<lparr>base_lr = 0.01, FactorScheduler.step = 2, FactorScheduler.factor = - 1,
        stop_factor_lr = - 1, FactorScheduler.count = 0\<rparr>"]
    init_accepts_nonpositive_factor[of "- 1" 2 "1.5" default_stop_factor_lr "[5, 10]"
      "\<lparr>base_lr = 0.01, MultiFactorScheduler.step = [5, 10], cur_step_ind = 0,
        MultiFactorScheduler.factor = - 1, MultiFactorScheduler.count = 0\<rparr>" 3
      "\<lparr>base_lr = 0.01, FactorScheduler.step = 2, FactorScheduler.factor = - 1,
        stop_factor_lr = 0.00000001, FactorScheduler.count = 0\<rparr>"]
  by simp

text \<open>
  With the default floor \<open>1e-8\<close> the first decay of a FactorScheduler constructed with
  the factor \<open>-1\<close>, and of one constructed with the factor 0, returns the floor: a
  positive rate, as the initial rate is, and not zero.
\<close>

theorem FactorScheduler_nonpositive_factor_pinned_at_floor:
  "FactorScheduler_init 2 (- 1) default_stop_factor_lr =
     Inr \<lparr>base_lr = 0.01, FactorScheduler.step = 2, FactorScheduler.factor = - 1,
          stop_factor_lr = default_stop_factor_lr, FactorScheduler.count = 0\<rparr> \<and>
   fst (FactorScheduler_call
     \<lparr>base_lr = 0.01, FactorScheduler.step = 2, FactorScheduler.factor = - 1,
      stop_factor_lr = default_stop_factor_lr, FactorScheduler.count = 0\<rparr> 3) = 0.00000001 \<and>
   FactorScheduler_init 2 0 default_stop_factor_lr =
     Inr \<lparr>base_lr = 0.01, FactorScheduler.step = 2, FactorScheduler.factor = 0,
          stop_factor_lr = default_stop_factor_lr, FactorScheduler.count = 0\<rparr> \<and>
   fst (FactorScheduler_call
     \<lparr>base_lr = 0.01, FactorScheduler.step = 2, FactorScheduler.factor = 0,
      stop_factor_lr = default_stop_factor_lr, FactorScheduler.count = 0\<rparr> 3) = 0.00000001 \<and>
   (0::real) < 0.00000001"
  by (simp add: FactorScheduler_init_def LRScheduler_init_def FactorScheduler_call_def
      default_stop_factor_lr_def Let_def)

end
